theory Spec2Isabelle
  imports Complex_Main
begin

section \<open>Data model of optimizedDiff.ts\<close>

text \<open>
  A \<open>Diff\<close> of diff-match-patch is a pair of an operation and a text. The operation is one
  of the three constants \<open>DIFF_DELETE\<close> (-1), \<open>DIFF_INSERT\<close> (1) and \<open>DIFF_EQUAL\<close> (0).
  A JavaScript string is a sequence of code units; it is modelled as a \<open>string\<close>, one
  \<open>char\<close> per code unit, and \<open>length\<close> is the \<open>.length\<close> of the source.
  Numbers are doubles, as modelled below.
\<close>

datatype Op = DIFF_DELETE | DIFF_INSERT | DIFF_EQUAL

type_synonym Diff = "Op \<times> string"

subsection \<open>JavaScript numbers\<close>

text \<open>
  A number of the source is an IEEE 754 double. It is modelled as a finite value, one of
  the two infinities, or NaN; zero stands for both signed zeros. The result of an
  arithmetic operation on finite values is the exact result rounded to the nearest double,
  ties to even, with gradual underflow and overflow to infinity.
\<close>

datatype jsnum = Fin real | PosInf | NegInf | NaN

text \<open>The number of binary digits of a positive integer.\<close>

function bit_length :: "int \<Rightarrow> nat" where
  "bit_length n = (if n \<le> 0 then 0 else Suc (bit_length (n div 2)))"
  by pat_completeness auto
termination
  by (relation "measure nat") auto

definition pow2 :: "int \<Rightarrow> real" where
  "pow2 k = (if 0 \<le> k then 2 ^ nat k else 1 / 2 ^ nat (- k))"

text \<open>For positive \<open>a\<close>, the exponent \<open>k\<close> with \<open>2\<^sup>k \<le> a < 2\<^sup>k\<^sup>+\<^sup>1\<close>.\<close>

definition binade :: "real \<Rightarrow> int" where
  "binade a = (if 1 \<le> a then int (bit_length \<lfloor>a\<rfloor>) - 1
               else - int (bit_length (\<lceil>1 / a\<rceil> - 1)))"

definition round_half_even :: "real \<Rightarrow> int" where
  "round_half_even x =
     (let f = \<lfloor>x\<rfloor>; d = x - of_int f in
      if d < 1 / 2 then f
      else if 1 / 2 < d then f + 1
      else if even f then f else f + 1)"

text \<open>
  Rounding to a double: 53 significant bits, the exponent of the last bit not below
  -1074, and infinity from \<open>2\<^sup>1\<^sup>0\<^sup>2\<^sup>4\<close> on.
\<close>

definition round_double :: "real \<Rightarrow> jsnum" where
  "round_double x =
     (if x = 0 then Fin 0
      else let a = \<bar>x\<bar>;
               e = max (binade a - 52) (- 1074);
               m = round_half_even (a / pow2 e);
               y = of_int m * pow2 e
           in if pow2 1024 \<le> y then (if 0 < x then PosInf else NegInf)
              else Fin (if 0 < x then y else - y))"

fun jneg :: "jsnum \<Rightarrow> jsnum" where
  "jneg (Fin a) = Fin (- a)"
| "jneg PosInf = NegInf"
| "jneg NegInf = PosInf"
| "jneg NaN = NaN"

text \<open>\<open>a + b\<close>, \<open>a - b\<close>, \<open>a * b\<close> and \<open>a / b\<close> of the source.\<close>

fun jadd :: "jsnum \<Rightarrow> jsnum \<Rightarrow> jsnum" where
  "jadd NaN _ = NaN"
| "jadd _ NaN = NaN"
| "jadd (Fin a) (Fin b) = round_double (a + b)"
| "jadd PosInf NegInf = NaN"
| "jadd NegInf PosInf = NaN"
| "jadd PosInf _ = PosInf"
| "jadd _ PosInf = PosInf"
| "jadd NegInf _ = NegInf"
| "jadd _ NegInf = NegInf"

definition jsub :: "jsnum \<Rightarrow> jsnum \<Rightarrow> jsnum" where
  "jsub a b = jadd a (jneg b)"

fun jsign :: "jsnum \<Rightarrow> int" where
  "jsign (Fin a) = (if 0 < a then 1 else if a < 0 then - 1 else 0)"
| "jsign PosInf = 1"
| "jsign NegInf = - 1"
| "jsign NaN = 0"

fun jmul :: "jsnum \<Rightarrow> jsnum \<Rightarrow> jsnum" where
  "jmul NaN _ = NaN"
| "jmul _ NaN = NaN"
| "jmul (Fin a) (Fin b) = round_double (a * b)"
| "jmul a b =
     (let s = jsign a * jsign b in
      if 0 < s then PosInf else if s < 0 then NegInf else NaN)"

fun jdiv :: "jsnum \<Rightarrow> jsnum \<Rightarrow> jsnum" where
  "jdiv NaN _ = NaN"
| "jdiv _ NaN = NaN"
| "jdiv (Fin a) (Fin b) =
     (if b = 0 then (if 0 < a then PosInf else if a < 0 then NegInf else NaN)
      else round_double (a / b))"
| "jdiv (Fin a) _ = Fin 0"
| "jdiv PosInf (Fin b) = (if b < 0 then NegInf else PosInf)"
| "jdiv NegInf (Fin b) = (if b < 0 then PosInf else NegInf)"
| "jdiv _ _ = NaN"

text \<open>\<open>a >= b\<close> and \<open>a < b\<close> of the source: false as soon as one side is NaN.\<close>

fun jge :: "jsnum \<Rightarrow> jsnum \<Rightarrow> bool" where
  "jge NaN _ = False"
| "jge _ NaN = False"
| "jge (Fin a) (Fin b) = (b \<le> a)"
| "jge PosInf _ = True"
| "jge _ NegInf = True"
| "jge _ _ = False"

fun jlt :: "jsnum \<Rightarrow> jsnum \<Rightarrow> bool" where
  "jlt NaN _ = False"
| "jlt _ NaN = False"
| "jlt (Fin a) (Fin b) = (a < b)"
| "jlt PosInf _ = False"
| "jlt _ NegInf = False"
| "jlt _ _ = True"

text \<open>The literal \<open>0.95\<close>: the double nearest to 95/100.\<close>

definition double_0_95 :: jsnum where
  "double_0_95 = round_double (95 / 100)"

record DiffOptions =
  maxComputationTimeMs :: "jsnum option"
  checkLines :: "bool option"
  lineMode :: "bool option"
  semanticCleanup :: "bool option"

datatype Algorithm = Fast | Accurate | LineBased

record Stats =
  totalSize :: nat
  changeCount :: nat
  insertions :: nat
  deletions :: nat

record DiffResult =
  diffs :: "Diff list"
  hitTimeout :: bool
  computationTimeMs :: jsnum
  algorithm :: Algorithm
  stats :: Stats

definition SIZE_THRESHOLD_ACCURATE :: nat where
  "SIZE_THRESHOLD_ACCURATE = 1700"

definition CHAR_THRESHOLD_ACCURATE :: nat where
  "CHAR_THRESHOLD_ACCURATE = 500"

definition DEFAULT_TIMEOUT :: jsnum where
  "DEFAULT_TIMEOUT = Fin 5000"

section \<open>What the code takes from outside\<close>

text \<open>
  The class holds one \<open>diff_match_patch\<close> instance, \<open>this.dmp\<close>. The only field of it that
  the code writes is \<open>Diff_Timeout\<close> (seconds), so the instance is a record with that field,
  passed in and returned by \<open>computeDiff\<close>.
\<close>

record diff_match_patch =
  Diff_Timeout :: jsnum

text \<open>
  The package diff-match-patch is imported, not part of the repository. Its two entry
  points that the code calls are parameters of the model: \<open>diff_main\<close> reads the instance
  (its \<open>Diff_Timeout\<close>), the two texts and the optional \<open>checklines\<close> argument;
  \<open>diff_cleanupSemantic\<close> rewrites the array it is given, which the model returns.
  \<open>performance.now()\<close> is read twice on every path of \<open>computeDiff\<close>: \<open>now_start\<close> is the
  first reading and \<open>now_end\<close> the second. A reading is a time stamp, a finite number.
\<close>

record Env =
  diff_main :: "diff_match_patch \<Rightarrow> string \<Rightarrow> string \<Rightarrow> bool option \<Rightarrow> Diff list"
  diff_cleanupSemantic :: "Diff list \<Rightarrow> Diff list"
  now_start :: real
  now_end :: real

section \<open>OptimizedDiffComputer\<close>

subsection \<open>split and join on the line separator\<close>

definition nl :: char where
  "nl = CHR 0x0A"

text \<open>\<open>text.split('\n')\<close>: always at least one line; the separator is removed.\<close>

fun split_nl :: "string \<Rightarrow> string list" where
  "split_nl [] = [[]]"
| "split_nl (c # cs) =
     (if c = nl then [] # split_nl cs
      else (case split_nl cs of [] \<Rightarrow> [[c]] | l # ls \<Rightarrow> (c # l) # ls))"

text \<open>\<open>lines.join('\n')\<close>.\<close>

fun join_nl :: "string list \<Rightarrow> string" where
  "join_nl [] = []"
| "join_nl [l] = l"
| "join_nl (l # ls) = l @ nl # join_nl ls"

subsection \<open>The line hash of computeLineDiff\<close>

text \<open>
  \<open>String.prototype.trim\<close> removes white space and line terminators at both ends; among
  the code units below 256 these are 9 to 13, 32 and 160.
\<close>

definition is_space :: "char \<Rightarrow> bool" where
  "is_space c = (of_char c \<in> {9, 10, 11, 12, 13, 32, 160 :: nat})"

definition trim :: "string \<Rightarrow> string" where
  "trim s = rev (dropWhile is_space (rev (dropWhile is_space s)))"

text \<open>The closure \<open>getLineHash\<close> over the map \<open>lineHash\<close> and the counter \<open>nextHash\<close>.\<close>

type_synonym HashState = "(string \<rightharpoonup> nat) \<times> nat"

definition getLineHash :: "string \<Rightarrow> HashState \<Rightarrow> nat \<times> HashState" where
  "getLineHash line st =
     (let trimmed = trim line in
      case fst st trimmed of
        None \<Rightarrow> (snd st, ((fst st)(trimmed \<mapsto> snd st), snd st + 1))
      | Some hash \<Rightarrow> (hash, st))"

text \<open>\<open>lines.map(l => getLineHash(l))\<close>, the state threaded from left to right.\<close>

fun map_getLineHash :: "string list \<Rightarrow> HashState \<Rightarrow> nat list \<times> HashState" where
  "map_getLineHash [] st = ([], st)"
| "map_getLineHash (l # ls) st =
     (let (h, st1) = getLineHash l st;
          (hs, st2) = map_getLineHash ls st1
      in (h # hs, st2))"

subsection \<open>computeLinesDiffAccurate, computeLinesDiffFast, computeLineDiff\<close>

definition computeLinesDiffAccurate ::
  "Env \<Rightarrow> diff_match_patch \<Rightarrow> string list \<Rightarrow> string list \<Rightarrow> nat list \<Rightarrow> nat list \<Rightarrow> jsnum \<Rightarrow> Diff list" where
  "computeLinesDiffAccurate env dmp lines1 lines2 hashes1 hashes2 deadline =
     (let text1 = join_nl lines1;
          text2 = join_nl lines2;
          charDiffs = diff_main env dmp text1 text2 None
      in charDiffs)"

definition computeLinesDiffFast ::
  "Env \<Rightarrow> diff_match_patch \<Rightarrow> string list \<Rightarrow> string list \<Rightarrow> jsnum \<Rightarrow> Diff list" where
  "computeLinesDiffFast env dmp lines1 lines2 deadline =
     (let text1 = join_nl lines1;
          text2 = join_nl lines2
      in diff_main env dmp text1 text2 (Some True))"

definition computeLineDiff ::
  "Env \<Rightarrow> diff_match_patch \<Rightarrow> string \<Rightarrow> string \<Rightarrow> jsnum \<Rightarrow> Diff list" where
  "computeLineDiff env dmp text1 text2 deadline =
     (let lines1 = split_nl text1;
          lines2 = split_nl text2;
          totalLines = length lines1 + length lines2;
          (hashes1, st1) = map_getLineHash lines1 (Map.empty, 0);
          (hashes2, st2) = map_getLineHash lines2 st1
      in if totalLines < SIZE_THRESHOLD_ACCURATE
         then computeLinesDiffAccurate env dmp lines1 lines2 hashes1 hashes2 deadline
         else computeLinesDiffFast env dmp lines1 lines2 deadline)"

subsection \<open>computeStats\<close>

fun computeStats_loop :: "Diff list \<Rightarrow> Stats \<Rightarrow> Stats" where
  "computeStats_loop [] s = s"
| "computeStats_loop ((op, text) # rest) s =
     (let s1 = s\<lparr>totalSize := totalSize s + length text\<rparr> in
      if op = DIFF_DELETE then
        computeStats_loop rest
          (s1\<lparr>deletions := deletions s1 + length text, changeCount := changeCount s1 + 1\<rparr>)
      else if op = DIFF_INSERT then
        computeStats_loop rest
          (s1\<lparr>insertions := insertions s1 + length text, changeCount := changeCount s1 + 1\<rparr>)
      else computeStats_loop rest s1)"

definition computeStats :: "Diff list \<Rightarrow> Stats" where
  "computeStats ds =
     computeStats_loop ds \<lparr>totalSize = 0, changeCount = 0, insertions = 0, deletions = 0\<rparr>"

subsection \<open>computeDiff\<close>

text \<open>
  The result of a call is the \<open>DiffResult\<close> together with the instance \<open>this.dmp\<close> as the
  call leaves it: the character path assigns \<open>Diff_Timeout\<close>, the other two paths do not.
\<close>

definition computeDiff ::
  "Env \<Rightarrow> diff_match_patch \<Rightarrow> string \<Rightarrow> string \<Rightarrow> DiffOptions \<Rightarrow> DiffResult \<times> diff_match_patch" where
  "computeDiff env dmp text1 text2 options =
     (let startTime = Fin (now_start env);
          timeout = (case maxComputationTimeMs options of None \<Rightarrow> DEFAULT_TIMEOUT | Some t \<Rightarrow> t);
          deadline = jadd startTime timeout
      in
      if text1 = text2 then
        (\<lparr>diffs = [(DIFF_EQUAL, text1)],
          hitTimeout = False,
          computationTimeMs = jsub (Fin (now_end env)) startTime,
          algorithm = Fast,
          stats = \<lparr>totalSize = length text1, changeCount = 0, insertions = 0, deletions = 0\<rparr>\<rparr>,
         dmp)
      else
        let shouldUseLineMode =
              (lineMode options \<noteq> Some False \<and> (nl \<in> set text1 \<or> nl \<in> set text2));
            (diffs0, algorithm0, dmp1) =
              (if shouldUseLineMode then
                 (computeLineDiff env dmp text1 text2 deadline, LineBased, dmp)
               else
                 let totalSize = length text1 + length text2 in
                 if totalSize < CHAR_THRESHOLD_ACCURATE then
                   let dmpA = dmp\<lparr>Diff_Timeout := jdiv timeout (Fin 1000)\<rparr> in
                   (diff_main env dmpA text1 text2 None, Accurate, dmpA)
                 else
                   let dmpF = dmp\<lparr>Diff_Timeout := jdiv timeout (Fin 1000)\<rparr> in
                   (diff_main env dmpF text1 text2 (Some True), Fast, dmpF));
            computationTime = jsub (Fin (now_end env)) startTime;
            hitTimeout0 = jge computationTime (jmul timeout double_0_95);
            diffs1 = (if \<not> hitTimeout0 \<and> semanticCleanup options \<noteq> Some False
                      then diff_cleanupSemantic env diffs0 else diffs0);
            stats0 = computeStats diffs1
        in
        (\<lparr>diffs = diffs1,
          hitTimeout = hitTimeout0,
          computationTimeMs = computationTime,
          algorithm = algorithm0,
          stats = stats0\<rparr>,
         dmp1))"

subsection \<open>optimizeDiffs\<close>

text \<open>
  The \<open>for\<close> loop over \<open>i\<close>; \<open>diffs[i - 1]\<close> and \<open>diffs[i + 1]\<close> are read only under the
  guard \<open>i > 0 && i < diffs.length - 1\<close>, where both are in range.
\<close>

function optimizeDiffs_loop :: "Diff list \<Rightarrow> nat \<Rightarrow> Diff list \<Rightarrow> Diff list" where
  "optimizeDiffs_loop ds i result =
     (if i < length ds then
        let curr = ds ! i in
        if fst curr = DIFF_EQUAL \<and> length (snd curr) < 3 \<and> i > 0 \<and> int i < int (length ds) - 1
           \<and> fst (ds ! (i - 1)) \<noteq> DIFF_EQUAL \<and> fst (ds ! (i + 1)) \<noteq> DIFF_EQUAL
        then optimizeDiffs_loop ds (i + 1) result
        else optimizeDiffs_loop ds (i + 1) (result @ [curr])
      else result)"
  by pat_completeness auto
termination
  by (relation "measure (\<lambda>(ds, i, result). length ds - i)") auto

definition optimizeDiffs :: "Diff list \<Rightarrow> Diff list" where
  "optimizeDiffs ds = optimizeDiffs_loop ds 0 []"

section \<open>renderDiffToHtml\<close>

record RenderOptions =
  maxChunks :: "int option"
  highlightIndex :: "int option"

record RenderedDiff =
  leftHtml :: string
  rightHtml :: string
  changeCount :: nat
  truncated :: bool

text \<open>\<open>text.replace(/c/g, s)\<close> for a single character \<open>c\<close>.\<close>

definition replaceAll :: "char \<Rightarrow> string \<Rightarrow> string \<Rightarrow> string" where
  "replaceAll c s text = concat (map (\<lambda>x. if x = c then s else [x]) text)"

definition escapeHtml :: "string \<Rightarrow> string" where
  \<open>escapeHtml text =
     replaceAll nl ''<br>''
       (replaceAll CHR ''>'' ''&gt;''
         (replaceAll CHR ''<'' ''&lt;''
           (replaceAll CHR ''&'' ''&amp;'' text)))\<close>

text \<open>A number in a template literal: its decimal digits.\<close>

fun string_of_nat :: "nat \<Rightarrow> string" where
  "string_of_nat n =
     (if n < 10 then [char_of (n + 48)]
      else string_of_nat (n div 10) @ [char_of (n mod 10 + 48)])"

definition truncationMsg :: string where
  \<open>truncationMsg =
     ''<span class="text-muted-foreground italic">[... diff truncated for performance ...]</span>''\<close>

definition ringClass :: "bool \<Rightarrow> string" where
  \<open>ringClass highlighted = (if highlighted then ''ring-2 ring-blue-500 ring-offset-2'' else [])\<close>

definition deleteSpan :: "int \<Rightarrow> nat \<Rightarrow> string \<Rightarrow> string" where
  \<open>deleteSpan highlightIdx actualDiffIndex escapedText =
     (let highlighted = (int actualDiffIndex = highlightIdx) in
      ''<span class="bg-red-200 dark:bg-red-900/50 text-red-900 dark:text-red-200 ''
      @ ringClass highlighted @ ''" data-diff-index="'' @ string_of_nat actualDiffIndex
      @ ''">'' @ escapedText @ ''</span>'')\<close>

definition insertSpan :: "int \<Rightarrow> nat \<Rightarrow> string \<Rightarrow> string" where
  \<open>insertSpan highlightIdx actualDiffIndex escapedText =
     (let highlighted = (int actualDiffIndex = highlightIdx) in
      ''<span class="bg-green-200 dark:bg-green-900/50 text-green-900 dark:text-green-200 ''
      @ ringClass highlighted @ ''" data-diff-index="'' @ string_of_nat actualDiffIndex
      @ ''">'' @ escapedText @ ''</span>'')\<close>

definition equalSpan :: "string \<Rightarrow> string" where
  \<open>equalSpan escapedText =
     ''<span class="text-gray-700 dark:text-gray-300">'' @ escapedText @ ''</span>''\<close>

text \<open>
  The \<open>for ... of\<close> loop. The arguments after the list are the variables \<open>leftHtml\<close>,
  \<open>rightHtml\<close>, \<open>chunkCount\<close> and \<open>actualDiffIndex\<close>; \<open>chunkCount++ > maxChunks\<close> compares the
  value before the increment. \<open>truncated\<close> is false until the \<open>break\<close>.
\<close>

fun render_loop ::
  "int \<Rightarrow> int \<Rightarrow> Diff list \<Rightarrow> string \<Rightarrow> string \<Rightarrow> nat \<Rightarrow> nat \<Rightarrow> RenderedDiff" where
  "render_loop maxCh highlightIdx [] left right chunkCount actualDiffIndex =
     \<lparr>leftHtml = left, rightHtml = right, changeCount = actualDiffIndex, truncated = False\<rparr>"
| "render_loop maxCh highlightIdx ((op, text) # rest) left right chunkCount actualDiffIndex =
     (if int chunkCount > maxCh then
        \<lparr>leftHtml = left @ truncationMsg, rightHtml = right @ truncationMsg,
         changeCount = actualDiffIndex, truncated = True\<rparr>
      else
        let escapedText = escapeHtml text in
        (case op of
           DIFF_DELETE \<Rightarrow>
             render_loop maxCh highlightIdx rest
               (left @ deleteSpan highlightIdx actualDiffIndex escapedText) right
               (chunkCount + 1) (actualDiffIndex + 1)
         | DIFF_INSERT \<Rightarrow>
             render_loop maxCh highlightIdx rest
               left (right @ insertSpan highlightIdx actualDiffIndex escapedText)
               (chunkCount + 1) (actualDiffIndex + 1)
         | DIFF_EQUAL \<Rightarrow>
             render_loop maxCh highlightIdx rest
               (left @ equalSpan escapedText) (right @ equalSpan escapedText)
               (chunkCount + 1) actualDiffIndex))"

definition renderDiffToHtml :: "Diff list \<Rightarrow> RenderOptions \<Rightarrow> RenderedDiff" where
  "renderDiffToHtml ds options =
     (let maxCh = (case maxChunks options of None \<Rightarrow> 5000 | Some m \<Rightarrow> m);
          highlightIdx = (case highlightIndex options of None \<Rightarrow> - 1 | Some h \<Rightarrow> h)
      in render_loop maxCh highlightIdx ds [] [] 0 0)"

section \<open>Observations on edit sequences\<close>

text \<open>
  The text an edit sequence reconstructs on each side: the spans of the operations that are
  not inserts, in order, and the spans of the operations that are not deletes.
\<close>

definition diff_text1 :: "Diff list \<Rightarrow> string" where
  "diff_text1 ds = concat (map snd (filter (\<lambda>d. fst d \<noteq> DIFF_INSERT) ds))"

definition diff_text2 :: "Diff list \<Rightarrow> string" where
  "diff_text2 ds = concat (map snd (filter (\<lambda>d. fst d \<noteq> DIFF_DELETE) ds))"

text \<open>No two adjacent operations carry the same tag.\<close>

fun coalesced :: "Diff list \<Rightarrow> bool" where
  "coalesced [] = True"
| "coalesced [x] = True"
| "coalesced (x # y # rest) = (fst x \<noteq> fst y \<and> coalesced (y # rest))"

text \<open>
  The region index the specification gives to position \<open>i\<close> of a sequence: the number of
  operations before \<open>i\<close> that are not \<open>Equal\<close>.
\<close>

definition regionIndex :: "Diff list \<Rightarrow> nat \<Rightarrow> nat" where
  "regionIndex ds i = length (filter (\<lambda>d. fst d \<noteq> DIFF_EQUAL) (take i ds))"

text \<open>
  What one operation contributes to the left and to the right output when it is rendered
  with region index \<open>idx\<close>: the three branches of the loop body of \<open>renderDiffToHtml\<close>.
\<close>

definition left_piece :: "int \<Rightarrow> Diff \<Rightarrow> nat \<Rightarrow> string" where
  "left_piece highlightIdx d idx =
     (case fst d of
        DIFF_DELETE \<Rightarrow> deleteSpan highlightIdx idx (escapeHtml (snd d))
      | DIFF_INSERT \<Rightarrow> []
      | DIFF_EQUAL \<Rightarrow> equalSpan (escapeHtml (snd d)))"

definition right_piece :: "int \<Rightarrow> Diff \<Rightarrow> nat \<Rightarrow> string" where
  "right_piece highlightIdx d idx =
     (case fst d of
        DIFF_DELETE \<Rightarrow> []
      | DIFF_INSERT \<Rightarrow> insertSpan highlightIdx idx (escapeHtml (snd d))
      | DIFF_EQUAL \<Rightarrow> equalSpan (escapeHtml (snd d)))"

text \<open>The sign of a number: not below zero, not above zero, above zero.\<close>

fun nonneg :: "jsnum \<Rightarrow> bool" where
  "nonneg (Fin a) = (0 \<le> a)"
| "nonneg PosInf = True"
| "nonneg _ = False"

fun nonpos :: "jsnum \<Rightarrow> bool" where
  "nonpos (Fin a) = (a \<le> 0)"
| "nonpos NegInf = True"
| "nonpos _ = False"

fun positive :: "jsnum \<Rightarrow> bool" where
  "positive (Fin a) = (0 < a)"
| "positive PosInf = True"
| "positive _ = False"

section \<open>The contract of the diff library\<close>

text \<open>
  Modelled from the spec: the source of the package diff-match-patch (\<open>diff_main\<close>,
  \<open>diff_cleanupSemantic\<close>) is not in the repository. The specification requires of the
  core diff that its edit sequence reconstructs both texts, also after a timeout, and of
  the semantic cleanup that it does not change what each side reconstructs to.
\<close>

definition dmp_reconstructs :: "Env \<Rightarrow> bool" where
  "dmp_reconstructs env =
     ((\<forall>dmp a b cl. diff_text1 (diff_main env dmp a b cl) = a
                  \<and> diff_text2 (diff_main env dmp a b cl) = b)
      \<and> (\<forall>ds. diff_text1 (diff_cleanupSemantic env ds) = diff_text1 ds
             \<and> diff_text2 (diff_cleanupSemantic env ds) = diff_text2 ds))"

section \<open>A concrete library and concrete inputs for the examples\<close>

text \<open>
  A small stand-in for the library, used only where a property is run on a concrete
  input: its \<open>diff_main\<close> deletes the whole first text and inserts the whole second one,
  and its cleanup merges adjacent operations with the same tag.
\<close>

fun merge_adjacent :: "Diff list \<Rightarrow> Diff list" where
  "merge_adjacent [] = []"
| "merge_adjacent [x] = [x]"
| "merge_adjacent (x # y # rest) =
     (if fst x = fst y then merge_adjacent ((fst x, snd x @ snd y) # rest)
      else x # merge_adjacent (y # rest))"

definition whole_text_diff :: "string \<Rightarrow> string \<Rightarrow> Diff list" where
  "whole_text_diff a b =
     (if a = [] then [] else [(DIFF_DELETE, a)]) @ (if b = [] then [] else [(DIFF_INSERT, b)])"

definition sample_env :: "real \<Rightarrow> real \<Rightarrow> Env" where
  "sample_env t0 t1 =
     \<lparr>diff_main = (\<lambda>dmp a b cl. whole_text_diff a b),
      diff_cleanupSemantic = merge_adjacent,
      now_start = t0, now_end = t1\<rparr>"

definition fresh_dmp :: diff_match_patch where
  "fresh_dmp = \<lparr>Diff_Timeout = Fin 1\<rparr>"

definition no_options :: DiffOptions where
  "no_options = \<lparr>maxComputationTimeMs = None, checkLines = None, lineMode = None,
                 semanticCleanup = None\<rparr>"

definition timeout_options :: "jsnum \<Rightarrow> DiffOptions" where
  "timeout_options t = \<lparr>maxComputationTimeMs = Some t, checkLines = None, lineMode = None,
                        semanticCleanup = None\<rparr>"

definition two_lines :: string where
  "two_lines = [CHR ''a'', nl, CHR ''b'']"

definition three_ops :: "Diff list" where
  "three_ops = [(DIFF_DELETE, ''x''), (DIFF_EQUAL, ''ab''), (DIFF_INSERT, ''y'')]"

text \<open>
  Two doubles: the one nearest to 12.85, which is the number that the literal \<open>12.85\<close>
  denotes, and the double that the source prints as \<open>2.8499999999999996\<close>.
\<close>

definition double_12_85 :: real where
  "double_12_85 = 7233906901463859 / 2 ^ 49"

definition double_2_85 :: real where
  "double_2_85 = 1604407367250739 / 2 ^ 49"

text \<open>
  What the package diff-match-patch returns on the texts \<open>bbabaa\<close> and \<open>abbaabbaab\<close>:
  \<open>diff_main\<close> gives Insert(a), Equal(bb), Insert(a), Equal(ab), Insert(b), Equal(aa),
  Insert(b), and \<open>diff_cleanupSemantic\<close> turns that sequence into Insert(a), Equal(bba),
  Insert(a), Insert(b), Equal(baa), Insert(b). The environment \<open>replay_env\<close> replays
  these two results and is the stand-in above everywhere else.
\<close>

definition bbabaa_raw :: "Diff list" where
  "bbabaa_raw =
     [(DIFF_INSERT, ''a''), (DIFF_EQUAL, ''bb''), (DIFF_INSERT, ''a''), (DIFF_EQUAL, ''ab''),
      (DIFF_INSERT, ''b''), (DIFF_EQUAL, ''aa''), (DIFF_INSERT, ''b'')]"

definition bbabaa_cleaned :: "Diff list" where
  "bbabaa_cleaned =
     [(DIFF_INSERT, ''a''), (DIFF_EQUAL, ''bba''), (DIFF_INSERT, ''a''), (DIFF_INSERT, ''b''),
      (DIFF_EQUAL, ''baa''), (DIFF_INSERT, ''b'')]"

definition replay_env :: "real \<Rightarrow> real \<Rightarrow> Env" where
  "replay_env t0 t1 =
     \<lparr>diff_main = (\<lambda>dmp a b cl. if a = ''bbabaa'' \<and> b = ''abbaabbaab'' then bbabaa_raw
                                  else whole_text_diff a b),
      diff_cleanupSemantic = (\<lambda>ds. if ds = bbabaa_raw then bbabaa_cleaned
                                    else merge_adjacent ds),
      now_start = t0, now_end = t1\<rparr>"

section \<open>Rounding to doubles\<close>

lemma pow2_pos: "0 < pow2 k"
  by (simp add: pow2_def)

lemma round_half_even_nonneg: "0 \<le> x \<Longrightarrow> 0 \<le> round_half_even x"
  by (simp add: round_half_even_def Let_def)

text \<open>How a rounding is computed: the binade, the rounded significand, the value.\<close>

lemma round_double_pos:
  assumes "0 < x" and "binade x = b" and "max (b - 52) (- 1074) = e"
    and "round_half_even (x / pow2 e) = m" and "of_int m * pow2 e = y" and "y < pow2 1024"
  shows "round_double x = Fin y"
  using assms by (simp add: round_double_def Let_def)

lemma round_double_neg:
  assumes "0 < x" and "round_double x = Fin y"
  shows "round_double (- x) = Fin (- y)"
  using assms by (simp add: round_double_def Let_def split: if_splits)

text \<open>Rounding keeps the sign.\<close>

lemma significand_nonneg: "0 \<le> a \<Longrightarrow> 0 \<le> of_int (round_half_even (a / pow2 e)) * pow2 e"
proof -
  assume "0 \<le> a"
  then have "0 \<le> a / pow2 e"
    using pow2_pos [of e] by simp
  then have "0 \<le> round_half_even (a / pow2 e)"
    by (rule round_half_even_nonneg)
  then show ?thesis
    using pow2_pos [of e] by simp
qed

lemma round_double_nonneg: "0 \<le> x \<Longrightarrow> nonneg (round_double x)"
  using significand_nonneg [of "\<bar>x\<bar>" "max (binade \<bar>x\<bar> - 52) (- 1074)"]
  by (simp add: round_double_def Let_def)

lemma round_double_nonpos: "x \<le> 0 \<Longrightarrow> nonpos (round_double x)"
  using significand_nonneg [of "\<bar>x\<bar>" "max (binade \<bar>x\<bar> - 52) (- 1074)"]
  by (simp add: round_double_def Let_def)

lemma jge_nonneg_nonpos: "nonneg a \<Longrightarrow> nonpos b \<Longrightarrow> jge a b"
  by (cases a; cases b) simp_all

lemma double_0_95_value: "double_0_95 = Fin (8556839292003942 / 2 ^ 53)"
proof -
  have b: "binade (95 / 100) = - 1"
    by (simp add: binade_def)
  have e: "max (- 1 - 52) (- 1074) = (- 53 :: int)"
    by simp
  have m: "round_half_even (95 / 100 / pow2 (- 53)) = 8556839292003942"
    by (simp add: round_half_even_def pow2_def Let_def)
  have y: "of_int 8556839292003942 * pow2 (- 53) = 8556839292003942 / 2 ^ 53"
    by (simp add: pow2_def)
  have u: "(8556839292003942 / 2 ^ 53 :: real) < pow2 1024"
    by (simp add: pow2_def)
  show ?thesis
    unfolding double_0_95_def
    by (rule round_double_pos [OF _ b e m y u]) simp
qed

lemma round_double_1: "round_double 1 = Fin (1)"
proof -
  have b: "binade (1) = 0"
    by (simp add: binade_def)
  have e: "max (0 - 52) (- 1074) = (- 52 :: int)"
    by simp
  have m: "round_half_even ((1) / pow2 (- 52)) = 4503599627370496"
    by (simp add: round_half_even_def pow2_def Let_def)
  have y: "of_int 4503599627370496 * pow2 (- 52) = (1 :: real)"
    by (simp add: pow2_def)
  have u: "(1 :: real) < pow2 1024"
    by (simp add: pow2_def)
  have "round_double (1) = Fin (1)"
    by (rule round_double_pos [OF _ b e m y u]) simp
  then show ?thesis
    .
qed

lemma round_double_4749: "round_double 4749 = Fin (4749)"
proof -
  have b: "binade (4749) = 12"
    by (simp add: binade_def)
  have e: "max (12 - 52) (- 1074) = (- 40 :: int)"
    by simp
  have m: "round_half_even ((4749) / pow2 (- 40)) = 5221580720308224"
    by (simp add: round_half_even_def pow2_def Let_def)
  have y: "of_int 5221580720308224 * pow2 (- 40) = (4749 :: real)"
    by (simp add: pow2_def)
  have u: "(4749 :: real) < pow2 1024"
    by (simp add: pow2_def)
  have "round_double (4749) = Fin (4749)"
    by (rule round_double_pos [OF _ b e m y u]) simp
  then show ?thesis
    .
qed

lemma round_double_4750: "round_double 4750 = Fin (4750)"
proof -
  have b: "binade (4750) = 12"
    by (simp add: binade_def)
  have e: "max (12 - 52) (- 1074) = (- 40 :: int)"
    by simp
  have m: "round_half_even ((4750) / pow2 (- 40)) = 5222680231936000"
    by (simp add: round_half_even_def pow2_def Let_def)
  have y: "of_int 5222680231936000 * pow2 (- 40) = (4750 :: real)"
    by (simp add: pow2_def)
  have u: "(4750 :: real) < pow2 1024"
    by (simp add: pow2_def)
  have "round_double (4750) = Fin (4750)"
    by (rule round_double_pos [OF _ b e m y u]) simp
  then show ?thesis
    .
qed

lemma round_double_4900: "round_double 4900 = Fin (4900)"
proof -
  have b: "binade (4900) = 12"
    by (simp add: binade_def)
  have e: "max (12 - 52) (- 1074) = (- 40 :: int)"
    by simp
  have m: "round_half_even ((4900) / pow2 (- 40)) = 5387606976102400"
    by (simp add: round_half_even_def pow2_def Let_def)
  have y: "of_int 5387606976102400 * pow2 (- 40) = (4900 :: real)"
    by (simp add: pow2_def)
  have u: "(4900 :: real) < pow2 1024"
    by (simp add: pow2_def)
  have "round_double (4900) = Fin (4900)"
    by (rule round_double_pos [OF _ b e m y u]) simp
  then show ?thesis
    .
qed

lemma threshold_5000: "jmul (Fin 5000) double_0_95 = Fin (4750)"
proof -
  have b: "binade (5000 * (8556839292003942 / 2 ^ 53)) = 12"
    by (simp add: binade_def)
  have e: "max (12 - 52) (- 1074) = (- 40 :: int)"
    by simp
  have m: "round_half_even ((5000 * (8556839292003942 / 2 ^ 53)) / pow2 (- 40)) = 5222680231936000"
    by (simp add: round_half_even_def pow2_def Let_def)
  have y: "of_int 5222680231936000 * pow2 (- 40) = (4750 :: real)"
    by (simp add: pow2_def)
  have u: "(4750 :: real) < pow2 1024"
    by (simp add: pow2_def)
  have "round_double (5000 * (8556839292003942 / 2 ^ 53)) = Fin (4750)"
    by (rule round_double_pos [OF _ b e m y u]) simp
  then show ?thesis
    unfolding double_0_95_value jmul.simps .
qed

lemma threshold_3: "jmul (Fin 3) double_0_95 = Fin (1604407367250739 / 2 ^ 49)"
proof -
  have b: "binade (3 * (8556839292003942 / 2 ^ 53)) = 1"
    by (simp add: binade_def)
  have e: "max (1 - 52) (- 1074) = (- 51 :: int)"
    by simp
  have m: "round_half_even ((3 * (8556839292003942 / 2 ^ 53)) / pow2 (- 51)) = 6417629469002956"
    by (simp add: round_half_even_def pow2_def Let_def)
  have y: "of_int 6417629469002956 * pow2 (- 51) = (1604407367250739 / 2 ^ 49 :: real)"
    by (simp add: pow2_def)
  have u: "(1604407367250739 / 2 ^ 49 :: real) < pow2 1024"
    by (simp add: pow2_def)
  have "round_double (3 * (8556839292003942 / 2 ^ 53)) = Fin (1604407367250739 / 2 ^ 49)"
    by (rule round_double_pos [OF _ b e m y u]) simp
  then show ?thesis
    unfolding double_0_95_value jmul.simps .
qed

lemma threshold_1: "jmul (Fin 1) double_0_95 = Fin (4278419646001971 / 2 ^ 52)"
proof -
  have b: "binade (1 * (8556839292003942 / 2 ^ 53)) = - 1"
    by (simp add: binade_def)
  have e: "max (- 1 - 52) (- 1074) = (- 53 :: int)"
    by simp
  have m: "round_half_even ((1 * (8556839292003942 / 2 ^ 53)) / pow2 (- 53)) = 8556839292003942"
    by (simp add: round_half_even_def pow2_def Let_def)
  have y: "of_int 8556839292003942 * pow2 (- 53) = (4278419646001971 / 2 ^ 52 :: real)"
    by (simp add: pow2_def)
  have u: "(4278419646001971 / 2 ^ 52 :: real) < pow2 1024"
    by (simp add: pow2_def)
  have "round_double (1 * (8556839292003942 / 2 ^ 53)) = Fin (4278419646001971 / 2 ^ 52)"
    by (rule round_double_pos [OF _ b e m y u]) simp
  then show ?thesis
    unfolding double_0_95_value jmul.simps .
qed

lemma round_double_12_85: "round_double (1285 / 100) = Fin (7233906901463859 / 2 ^ 49)"
proof -
  have b: "binade (1285 / 100) = 3"
    by (simp add: binade_def)
  have e: "max (3 - 52) (- 1074) = (- 49 :: int)"
    by simp
  have m: "round_half_even ((1285 / 100) / pow2 (- 49)) = 7233906901463859"
    by (simp add: round_half_even_def pow2_def Let_def)
  have y: "of_int 7233906901463859 * pow2 (- 49) = (7233906901463859 / 2 ^ 49 :: real)"
    by (simp add: pow2_def)
  have u: "(7233906901463859 / 2 ^ 49 :: real) < pow2 1024"
    by (simp add: pow2_def)
  have "round_double (1285 / 100) = Fin (7233906901463859 / 2 ^ 49)"
    by (rule round_double_pos [OF _ b e m y u]) simp
  then show ?thesis
    .
qed

lemma elapsed_2_85: "jsub (Fin (7233906901463859 / 2 ^ 49)) (Fin 10) = Fin (1604407367250739 / 2 ^ 49)"
proof -
  have b: "binade (7233906901463859 / 2 ^ 49 + - 10) = 1"
    by (simp add: binade_def)
  have e: "max (1 - 52) (- 1074) = (- 51 :: int)"
    by simp
  have m: "round_half_even ((7233906901463859 / 2 ^ 49 + - 10) / pow2 (- 51)) = 6417629469002956"
    by (simp add: round_half_even_def pow2_def Let_def)
  have y: "of_int 6417629469002956 * pow2 (- 51) = (1604407367250739 / 2 ^ 49 :: real)"
    by (simp add: pow2_def)
  have u: "(1604407367250739 / 2 ^ 49 :: real) < pow2 1024"
    by (simp add: pow2_def)
  have "round_double (7233906901463859 / 2 ^ 49 + - 10) = Fin (1604407367250739 / 2 ^ 49)"
    by (rule round_double_pos [OF _ b e m y u]) simp
  then show ?thesis
    unfolding jsub_def jneg.simps jadd.simps .
qed

lemma round_double_minus_1: "round_double (- 1) = Fin (- 1)"
  using round_double_neg [OF _ round_double_1] by simp

lemma round_double_minus_2: "round_double (- 2) = Fin (- 2)"
proof -
  have b: "binade 2 = 1"
    by (simp add: binade_def)
  have e: "max (1 - 52) (- 1074) = (- 51 :: int)"
    by simp
  have m: "round_half_even (2 / pow2 (- 51)) = 4503599627370496"
    by (simp add: round_half_even_def pow2_def Let_def)
  have y: "of_int 4503599627370496 * pow2 (- 51) = (2 :: real)"
    by (simp add: pow2_def)
  have u: "(2 :: real) < pow2 1024"
    by (simp add: pow2_def)
  have "round_double 2 = Fin 2"
    by (rule round_double_pos [OF _ b e m y u]) simp
  from round_double_neg [OF _ this] show ?thesis
    by simp
qed

lemma reading_12_85: "round_double (1285 / 100) = Fin double_12_85"
  unfolding double_12_85_def by (rule round_double_12_85)

lemma elapsed_12_85: "jsub (Fin double_12_85) (Fin 10) = Fin double_2_85"
  unfolding double_12_85_def double_2_85_def by (rule elapsed_2_85)

lemma threshold_3_value: "jmul (Fin 3) double_0_95 = Fin double_2_85"
  unfolding double_2_85_def by (rule threshold_3)

lemma double_2_85_below: "double_2_85 < 3 * (95 / 100)"
  by (simp add: double_2_85_def)

lemma elapsed_0: "jsub (Fin 0) (Fin 0) = Fin 0"
  by (simp add: jsub_def round_double_def)

lemma elapsed_1: "jsub (Fin 1) (Fin 0) = Fin 1"
  by (simp add: jsub_def round_double_1)

lemma elapsed_4749: "jsub (Fin 4749) (Fin 0) = Fin 4749"
  by (simp add: jsub_def round_double_4749)

lemma elapsed_4750: "jsub (Fin 4750) (Fin 0) = Fin 4750"
  by (simp add: jsub_def round_double_4750)

lemma elapsed_4900: "jsub (Fin 4900) (Fin 0) = Fin 4900"
  by (simp add: jsub_def round_double_4900)

text \<open>Bounds on the binade, and the sign of a rounded value above half the least double.\<close>

lemma bit_length_upper: "0 \<le> n \<Longrightarrow> n < 2 ^ bit_length n"
proof (induction n rule: bit_length.induct)
  case (1 n)
  show ?case
  proof (cases "n \<le> 0")
    case True
    with 1(2) show ?thesis by simp
  next
    case False
    then have "n div 2 < 2 ^ bit_length (n div 2)"
      using 1(1) by simp
    then have "n < 2 * 2 ^ bit_length (n div 2)"
      by linarith
    with False show ?thesis
      by (subst bit_length.simps) simp
  qed
qed

lemma bit_length_lower: "1 \<le> n \<Longrightarrow> 2 ^ (bit_length n - 1) \<le> n"
proof (induction n rule: bit_length.induct)
  case (1 n)
  have s: "bit_length n = Suc (bit_length (n div 2))"
    using 1(2) by (subst bit_length.simps) simp
  show ?case
  proof (cases "n div 2 = 0")
    case True
    then have "bit_length (n div 2) = 0" by simp
    with s 1(2) show ?thesis by simp
  next
    case False
    with 1(2) have p: "1 \<le> n div 2" by linarith
    then have "2 ^ (bit_length (n div 2) - 1) \<le> n div 2"
      using 1 by simp
    moreover have "0 < bit_length (n div 2)"
      using p by (subst bit_length.simps) simp
    then have "(2::int) ^ bit_length (n div 2) = 2 * 2 ^ (bit_length (n div 2) - 1)"
      by (cases "bit_length (n div 2)") simp_all
    ultimately have "2 ^ bit_length (n div 2) \<le> n"
      by linarith
    with s show ?thesis by simp
  qed
qed

lemma pow2_powi: "pow2 k = 2 powi k"
  by (simp add: pow2_def power_int_def inverse_eq_divide power_one_over)

lemma pow2_diff: "pow2 (k - j) = pow2 k / pow2 j"
  by (simp add: pow2_powi power_int_diff)

lemma binade_le: "0 < a \<Longrightarrow> pow2 (binade a) \<le> a"
proof (cases "1 \<le> a")
  case True
  then have f: "1 \<le> \<lfloor>a\<rfloor>" by simp
  then have p: "0 < bit_length \<lfloor>a\<rfloor>"
    by (subst bit_length.simps) simp
  have "(2::int) ^ (bit_length \<lfloor>a\<rfloor> - 1) \<le> \<lfloor>a\<rfloor>"
    using f by (rule bit_length_lower)
  then have "of_int ((2::int) ^ (bit_length \<lfloor>a\<rfloor> - 1)) \<le> (of_int \<lfloor>a\<rfloor> :: real)"
    by (simp only: of_int_le_iff)
  also have "\<dots> \<le> a" by simp
  finally have "(2::real) ^ (bit_length \<lfloor>a\<rfloor> - 1) \<le> a" by simp
  moreover have "nat (int (bit_length \<lfloor>a\<rfloor>) - 1) = bit_length \<lfloor>a\<rfloor> - 1"
    by simp
  ultimately show ?thesis
    using True p by (simp add: binade_def pow2_def)
next
  case False
  assume a: "0 < a"
  define n where "n = \<lceil>1 / a\<rceil> - 1"
  have "1 < 1 / a" using False a by simp
  then have n1: "1 \<le> n" unfolding n_def by linarith
  then have "n < 2 ^ bit_length n"
    by (intro bit_length_upper) simp
  then have "n + 1 \<le> 2 ^ bit_length n" by simp
  then have "(of_int (n + 1) :: real) \<le> of_int (2 ^ bit_length n)"
    by (simp only: of_int_le_iff)
  moreover have "1 / a \<le> of_int (n + 1)"
    unfolding n_def by simp
  ultimately have "1 / a \<le> 2 ^ bit_length n" by simp
  then have "1 / 2 ^ bit_length n \<le> a"
    using a by (simp add: field_simps)
  moreover have "0 < bit_length n"
    using n1 by (subst bit_length.simps) simp
  ultimately show ?thesis
    using False by (simp add: binade_def pow2_def n_def)
qed

lemma round_half_even_ge_floor: "\<lfloor>z\<rfloor> \<le> round_half_even z"
  by (simp add: round_half_even_def Let_def)

lemma round_half_even_pos: "1 / 2 < z \<Longrightarrow> 1 \<le> round_half_even z"
proof (cases "\<lfloor>z\<rfloor> = 0")
  case True
  assume "1 / 2 < z"
  with True show ?thesis
    by (simp add: round_half_even_def Let_def)
next
  case False
  assume "1 / 2 < z"
  then have "0 \<le> \<lfloor>z\<rfloor>" by simp
  with False have "1 \<le> \<lfloor>z\<rfloor>" by linarith
  then show ?thesis
    using round_half_even_ge_floor [of z] by linarith
qed

lemma round_double_positive:
  assumes "pow2 (- 1075) < x"
  shows "positive (round_double x)"
proof -
  have x: "0 < x" using assms pow2_pos [of "- 1075"] by linarith
  define e where "e = max (binade x - 52) (- 1074)"
  have "1 / 2 < x / pow2 e"
  proof (cases "binade x - 52 \<le> - 1074")
    case True
    then have "e = - 1074" by (simp add: e_def)
    moreover have "pow2 (- 1075) = pow2 (- 1074) / 2"
      by (simp add: pow2_def)
    ultimately show ?thesis
      using assms pow2_pos [of "- 1074"] by (simp add: field_simps)
  next
    case False
    then have "e = binade x - 52" by (simp add: e_def)
    then have "pow2 e = pow2 (binade x) / pow2 52" by (simp add: pow2_diff)
    moreover have "pow2 52 = 2 ^ 52" by (simp add: pow2_def)
    ultimately have "pow2 e \<le> x / 2 ^ 52"
      using binade_le [OF x] by (simp add: field_simps)
    then have "pow2 e * 2 ^ 52 \<le> x" by (simp add: field_simps)
    moreover have "pow2 e < pow2 e * 2 ^ 52" using pow2_pos [of e] by simp
    ultimately show ?thesis
      using pow2_pos [of e] by (simp add: field_simps)
  qed
  then have "1 \<le> round_half_even (x / pow2 e)" by (rule round_half_even_pos)
  then have "0 < of_int (round_half_even (x / pow2 e)) * pow2 e"
    using pow2_pos [of e] by simp
  then show ?thesis
    using x by (simp add: round_double_def Let_def e_def)
qed

lemma not_jge_zero_positive: "positive a \<Longrightarrow> \<not> jge (Fin 0) a"
  by (cases a) simp_all

section \<open>Line splitting\<close>

lemma split_nl_not_Nil: "split_nl s \<noteq> []"
  by (induction s) (auto split: list.splits)

lemma join_split_nl: "join_nl (split_nl s) = s"
proof (induction s)
  case Nil
  show ?case by simp
next
  case (Cons c cs)
  obtain l ls where e: "split_nl cs = l # ls"
    using split_nl_not_Nil [of cs] by (cases "split_nl cs") auto
  show ?case
  proof (cases "c = nl")
    case True
    with e Cons show ?thesis by simp
  next
    case False
    with e Cons show ?thesis by (cases ls) auto
  qed
qed

text \<open>
  The line path hands the library the two texts themselves: splitting and joining gives
  the text back, and the line hashes are not read.
\<close>

lemma computeLineDiff_eq:
  "computeLineDiff env dmp a b deadline =
     diff_main env dmp a b
       (if length (split_nl a) + length (split_nl b) < SIZE_THRESHOLD_ACCURATE
        then None else Some True)"
  by (simp add: computeLineDiff_def computeLinesDiffAccurate_def computeLinesDiffFast_def
      join_split_nl Let_def split_def)

section \<open>The concrete library meets the contract\<close>

lemma diff_text1_merge_adjacent: "diff_text1 (merge_adjacent ds) = diff_text1 ds"
  by (induction ds rule: merge_adjacent.induct) (auto simp: diff_text1_def)

lemma diff_text2_merge_adjacent: "diff_text2 (merge_adjacent ds) = diff_text2 ds"
  by (induction ds rule: merge_adjacent.induct) (auto simp: diff_text2_def)

lemma sample_env_reconstructs: "dmp_reconstructs (sample_env t0 t1)"
  by (simp add: dmp_reconstructs_def sample_env_def diff_text1_merge_adjacent
      diff_text2_merge_adjacent)
     (simp add: diff_text1_def diff_text2_def whole_text_diff_def)

section \<open>computeDiff\<close>

text \<open>
  C1 (reconstruction). For every pair of texts, every options record, every state of the
  library instance and every pair of clock readings (so also when \<open>hitTimeout\<close> is true),
  the edit sequence returned by \<open>computeDiff\<close> reconstructs both inputs: the spans of its
  Equal and Delete operations concatenate to the first text, those of its Equal and Insert
  operations to the second. The library is assumed to meet its reconstruction contract;
  the code adds the identity shortcut, the split and join of the line path and the
  optional cleanup.
\<close>

theorem computeDiff_reconstructs:
  assumes "dmp_reconstructs env"
  shows "diff_text1 (diffs (fst (computeDiff env dmp a b options))) = a
       \<and> diff_text2 (diffs (fst (computeDiff env dmp a b options))) = b"
  using assms
  by (simp add: computeDiff_def computeLineDiff_eq dmp_reconstructs_def Let_def split_def
      diff_text1_def diff_text2_def)

theorem computeDiff_reconstructs_witness:
  "dmp_reconstructs (sample_env 0 4900)
   \<and> hitTimeout (fst (computeDiff (sample_env 0 4900) fresh_dmp two_lines ''ac'' no_options))
   \<and> diff_text1 (diffs (fst (computeDiff (sample_env 0 4900) fresh_dmp two_lines ''ac'' no_options)))
       = two_lines
   \<and> diff_text2 (diffs (fst (computeDiff (sample_env 0 4900) fresh_dmp two_lines ''ac'' no_options)))
       = ''ac''"
proof -
  have h: "hitTimeout (fst (computeDiff (sample_env 0 4900) fresh_dmp two_lines ''ac'' no_options))"
    by (simp add: computeDiff_def Let_def split_def two_lines_def no_options_def sample_env_def
        DEFAULT_TIMEOUT_def threshold_5000 elapsed_4900)
  show ?thesis
    using computeDiff_reconstructs [OF sample_env_reconstructs, of 0 4900 fresh_dmp two_lines
        "''ac''" no_options]
      sample_env_reconstructs [of 0 4900] h
    by simp
qed

text \<open>
  C4 (identity). For every text \<open>a\<close> and every options record, \<open>computeDiff\<close> on \<open>a\<close> and
  \<open>a\<close> returns the single operation \<open>Equal(a)\<close>, a change count of 0 in its statistics,
  \<open>hitTimeout\<close> false and the algorithm tag \<open>fast\<close>.
\<close>

theorem computeDiff_identity:
  "diffs (fst (computeDiff env dmp a a options)) = [(DIFF_EQUAL, a)]
   \<and> Stats.changeCount (stats (fst (computeDiff env dmp a a options))) = 0
   \<and> hitTimeout (fst (computeDiff env dmp a a options)) = False
   \<and> algorithm (fst (computeDiff env dmp a a options)) = Fast"
  by (simp add: computeDiff_def)

theorem computeDiff_identity_witness:
  "diffs (fst (computeDiff (sample_env 0 9000) fresh_dmp two_lines two_lines no_options))
     = [(DIFF_EQUAL, two_lines)]
   \<and> Stats.changeCount (stats (fst (computeDiff (sample_env 0 9000) fresh_dmp two_lines two_lines
        no_options))) = 0
   \<and> hitTimeout (fst (computeDiff (sample_env 0 9000) fresh_dmp two_lines two_lines no_options))
     = False
   \<and> algorithm (fst (computeDiff (sample_env 0 9000) fresh_dmp two_lines two_lines no_options))
     = Fast"
  using computeDiff_identity [of "sample_env 0 9000" fresh_dmp two_lines no_options]
  by simp

text \<open>
  C5 (algorithm selection). For distinct texts the tag is \<open>line-based\<close> when line mode is
  active, that is when \<open>lineMode\<close> is not \<open>false\<close> and one of the texts contains a line
  separator; otherwise it is \<open>accurate\<close> when the combined length is below 500 and \<open>fast\<close>
  when it is 500 or more. In character mode the library runs on the two texts with
  \<open>Diff_Timeout\<close> set from the budget, without the \<open>checklines\<close> argument below 500 and
  with \<open>checklines = true\<close> from 500 on, and the result is that edit sequence, cleaned up
  or not.
\<close>

theorem computeDiff_algorithm_selection:
  assumes "a \<noteq> b"
  shows "algorithm (fst (computeDiff env dmp a b options)) =
           (if lineMode options \<noteq> Some False \<and> (nl \<in> set a \<or> nl \<in> set b) then LineBased
            else if length a + length b < 500 then Accurate
            else Fast)
       \<and> (\<not> (lineMode options \<noteq> Some False \<and> (nl \<in> set a \<or> nl \<in> set b)) \<longrightarrow>
            diffs (fst (computeDiff env dmp a b options)) =
              (let timeout = (case maxComputationTimeMs options of None \<Rightarrow> Fin 5000 | Some t \<Rightarrow> t);
                   raw = diff_main env (dmp\<lparr>Diff_Timeout := jdiv timeout (Fin 1000)\<rparr>) a b
                           (if length a + length b < 500 then None else Some True)
               in if \<not> hitTimeout (fst (computeDiff env dmp a b options))
                     \<and> semanticCleanup options \<noteq> Some False
                  then diff_cleanupSemantic env raw else raw))"
  using assms
  by (simp add: computeDiff_def Let_def split_def CHAR_THRESHOLD_ACCURATE_def DEFAULT_TIMEOUT_def
      split: option.split)

theorem computeDiff_algorithm_selection_witness:
  "''ab'' \<noteq> ''ac''
   \<and> algorithm (fst (computeDiff (sample_env 0 1) fresh_dmp ''ab'' ''ac'' no_options)) = Accurate
   \<and> diffs (fst (computeDiff (sample_env 0 1) fresh_dmp ''ab'' ''ac'' no_options))
       = [(DIFF_DELETE, ''ab''), (DIFF_INSERT, ''ac'')]"
proof -
  have h: "''ab'' \<noteq> ''ac''" by simp
  have t: "\<not> hitTimeout (fst (computeDiff (sample_env 0 1) fresh_dmp ''ab'' ''ac'' no_options))"
    by (simp add: computeDiff_def Let_def split_def nl_def no_options_def sample_env_def
        DEFAULT_TIMEOUT_def CHAR_THRESHOLD_ACCURATE_def threshold_5000 elapsed_1)
  show ?thesis
    using computeDiff_algorithm_selection [OF h, of "sample_env 0 1" fresh_dmp no_options] t
    by (simp add: nl_def no_options_def sample_env_def whole_text_diff_def)
qed

text \<open>
  C7 (timeout flag and cleanup), as the claim states it: \<open>hitTimeout\<close> is true exactly when
  the computation time is at least 95% of the budget. At a budget of 3 with the clock
  readings 10 and 12.85, the computation time is the double 2.8499999999999996, which is
  below 95% of 3, and \<open>hitTimeout\<close> is true all the same:
  the code compares with the double product \<open>3 * 0.95\<close>, which rounds to that same
  double.
\<close>

theorem computeDiff_hitTimeout_counterexample:
  "round_double (1285 / 100) = Fin double_12_85
   \<and> computationTimeMs (fst (computeDiff (sample_env 10 double_12_85) fresh_dmp
        ''ab'' ''ac'' (timeout_options (Fin 3)))) = Fin double_2_85
   \<and> double_2_85 < 3 * (95 / 100)
   \<and> hitTimeout (fst (computeDiff (sample_env 10 double_12_85) fresh_dmp
        ''ab'' ''ac'' (timeout_options (Fin 3))))"
proof -
  have "computationTimeMs (fst (computeDiff (sample_env 10 double_12_85) fresh_dmp
        ''ab'' ''ac'' (timeout_options (Fin 3)))) = Fin double_2_85"
    by (simp add: computeDiff_def Let_def split_def nl_def timeout_options_def sample_env_def
        CHAR_THRESHOLD_ACCURATE_def elapsed_12_85)
  moreover have "hitTimeout (fst (computeDiff (sample_env 10 double_12_85) fresh_dmp
        ''ab'' ''ac'' (timeout_options (Fin 3))))"
    by (simp add: computeDiff_def Let_def split_def nl_def timeout_options_def sample_env_def
        CHAR_THRESHOLD_ACCURATE_def elapsed_12_85 threshold_3_value)
  ultimately show ?thesis
    using reading_12_85 double_2_85_below by blast
qed

text \<open>
  C7 as amended. For distinct texts, the computation time is the double difference of the
  two clock readings, \<open>hitTimeout\<close> is true exactly when that time is at least the double
  product of the budget (\<open>maxComputationTimeMs\<close>, 5000 when absent) and \<open>0.95\<close>, whatever
  the library returned, and the semantic cleanup is applied to the library's edit
  sequence exactly when \<open>hitTimeout\<close> is false and \<open>semanticCleanup\<close> is not \<open>false\<close>;
  otherwise the edit sequence is returned as the library gave it.
\<close>

theorem computeDiff_hitTimeout_doubles:
  assumes "a \<noteq> b"
  shows "(let timeout = (case maxComputationTimeMs options of None \<Rightarrow> Fin 5000 | Some t \<Rightarrow> t);
              r = fst (computeDiff env dmp a b options);
              raw = (if lineMode options \<noteq> Some False \<and> (nl \<in> set a \<or> nl \<in> set b)
                     then computeLineDiff env dmp a b (jadd (Fin (now_start env)) timeout)
                     else diff_main env (dmp\<lparr>Diff_Timeout := jdiv timeout (Fin 1000)\<rparr>) a b
                            (if length a + length b < 500 then None else Some True))
          in computationTimeMs r = jsub (Fin (now_end env)) (Fin (now_start env))
           \<and> hitTimeout r = jge (computationTimeMs r) (jmul timeout double_0_95)
           \<and> diffs r = (if \<not> hitTimeout r \<and> semanticCleanup options \<noteq> Some False
                        then diff_cleanupSemantic env raw else raw))"
  using assms
  by (simp add: computeDiff_def Let_def split_def CHAR_THRESHOLD_ACCURATE_def DEFAULT_TIMEOUT_def
      split: option.split)

theorem computeDiff_hitTimeout_doubles_witness:
  "''ab'' \<noteq> ''ac''
   \<and> hitTimeout (fst (computeDiff (sample_env 0 4750) fresh_dmp ''ab'' ''ac'' no_options))
   \<and> \<not> hitTimeout (fst (computeDiff (sample_env 0 4749) fresh_dmp ''ab'' ''ac'' no_options))"
proof -
  have h: "''ab'' \<noteq> ''ac''" by simp
  show ?thesis
    using computeDiff_hitTimeout_doubles [OF h, of no_options "sample_env 0 4750" fresh_dmp]
      computeDiff_hitTimeout_doubles [OF h, of no_options "sample_env 0 4749" fresh_dmp]
    by (simp add: Let_def no_options_def sample_env_def threshold_5000 elapsed_4750 elapsed_4749)
qed

text \<open>
  C10 (no newline, no line mode). For distinct texts neither of which contains a line
  separator, the tag is never \<open>line-based\<close>, whatever the options; in particular with
  \<open>lineMode: true\<close> the tag is \<open>accurate\<close> below a combined length of 500 and \<open>fast\<close> from
  500 on.
\<close>

theorem computeDiff_no_newline_char_mode:
  assumes "a \<noteq> b" and "nl \<notin> set a" and "nl \<notin> set b"
  shows "algorithm (fst (computeDiff env dmp a b options)) \<noteq> LineBased
       \<and> algorithm (fst (computeDiff env dmp a b (options\<lparr>lineMode := Some True\<rparr>))) =
           (if length a + length b < 500 then Accurate else Fast)"
  using assms
  by (simp add: computeDiff_def Let_def split_def CHAR_THRESHOLD_ACCURATE_def)

theorem computeDiff_no_newline_char_mode_witness:
  "''ab'' \<noteq> ''ac'' \<and> nl \<notin> set ''ab'' \<and> nl \<notin> set ''ac''
   \<and> algorithm (fst (computeDiff (sample_env 0 1) fresh_dmp ''ab'' ''ac''
        (no_options\<lparr>lineMode := Some True\<rparr>))) = Accurate"
proof -
  have h: "''ab'' \<noteq> ''ac''" "nl \<notin> set ''ab''" "nl \<notin> set ''ac''"
    by (simp_all add: nl_def)
  show ?thesis
    using computeDiff_no_newline_char_mode [OF h, of "sample_env 0 1" fresh_dmp no_options] h
    by simp
qed

text \<open>
  C9 (coalescing), as the claim states it: no two adjacent operations of the returned
  edit sequence share a tag. On the texts \<open>bbabaa\<close> and \<open>abbaabbaab\<close>, with the library's
  results on these texts, \<open>computeDiff\<close> returns the cleaned-up sequence as it is, and in
  it \<open>Insert(a)\<close> is followed by \<open>Insert(b)\<close>.
\<close>

theorem computeDiff_coalescing_counterexample:
  "diffs (fst (computeDiff (replay_env 0 1) fresh_dmp ''bbabaa'' ''abbaabbaab'' no_options)) =
     [(DIFF_INSERT, ''a''), (DIFF_EQUAL, ''bba''), (DIFF_INSERT, ''a''), (DIFF_INSERT, ''b''),
      (DIFF_EQUAL, ''baa''), (DIFF_INSERT, ''b'')]
   \<and> \<not> coalesced (diffs (fst (computeDiff (replay_env 0 1) fresh_dmp ''bbabaa'' ''abbaabbaab''
         no_options)))"
  by (simp add: computeDiff_def Let_def split_def nl_def no_options_def replay_env_def
      DEFAULT_TIMEOUT_def CHAR_THRESHOLD_ACCURATE_def threshold_5000 elapsed_1
      bbabaa_raw_def bbabaa_cleaned_def)

text \<open>
  C9 as amended. \<open>computeDiff\<close> has no coalescing step of its own. For identical texts it
  returns the single \<open>Equal\<close> operation, in which no two adjacent operations share a tag.
  For distinct texts it returns, unchanged, the edit sequence that \<open>diff_main\<close> returned,
  or what \<open>diff_cleanupSemantic\<close> made of it when the cleanup runs; two adjacent
  operations of the result share a tag exactly when they do in that sequence.
\<close>

theorem computeDiff_returns_library_sequence:
  "(a = b \<longrightarrow>
      diffs (fst (computeDiff env dmp a b options)) = [(DIFF_EQUAL, a)]
      \<and> coalesced (diffs (fst (computeDiff env dmp a b options))))
   \<and> (a \<noteq> b \<longrightarrow>
      diffs (fst (computeDiff env dmp a b options)) =
        (let timeout = (case maxComputationTimeMs options of None \<Rightarrow> Fin 5000 | Some t \<Rightarrow> t);
             raw = (if lineMode options \<noteq> Some False \<and> (nl \<in> set a \<or> nl \<in> set b)
                    then diff_main env dmp a b
                           (if length (split_nl a) + length (split_nl b) < 1700
                            then None else Some True)
                    else diff_main env (dmp\<lparr>Diff_Timeout := jdiv timeout (Fin 1000)\<rparr>) a b
                           (if length a + length b < 500 then None else Some True))
         in if \<not> hitTimeout (fst (computeDiff env dmp a b options))
               \<and> semanticCleanup options \<noteq> Some False
            then diff_cleanupSemantic env raw else raw))"
  by (simp add: computeDiff_def computeLineDiff_eq Let_def split_def CHAR_THRESHOLD_ACCURATE_def
      SIZE_THRESHOLD_ACCURATE_def DEFAULT_TIMEOUT_def split: option.split)

theorem computeDiff_returns_library_sequence_witness:
  "diffs (fst (computeDiff (replay_env 0 1) fresh_dmp ''bbabaa'' ''bbabaa'' no_options))
     = [(DIFF_EQUAL, ''bbabaa'')]
   \<and> coalesced (diffs (fst (computeDiff (replay_env 0 1) fresh_dmp ''bbabaa'' ''bbabaa''
        no_options)))
   \<and> diffs (fst (computeDiff (replay_env 0 1) fresh_dmp ''bbabaa'' ''abbaabbaab''
        (no_options\<lparr>semanticCleanup := Some False\<rparr>))) = bbabaa_raw
   \<and> coalesced bbabaa_raw"
  using computeDiff_returns_library_sequence [of "''bbabaa''" "''bbabaa''" "replay_env 0 1"
      fresh_dmp no_options]
    computeDiff_returns_library_sequence [of "''bbabaa''" "''abbaabbaab''" "replay_env 0 1"
      fresh_dmp "no_options\<lparr>semanticCleanup := Some False\<rparr>"]
  by (simp add: Let_def nl_def no_options_def replay_env_def bbabaa_raw_def)

text \<open>
  With equal clock readings, no positive budget is timed out: the double product of a
  positive double and \<open>0.95\<close> is above zero, and the computation time is zero.
\<close>

lemma computeDiff_positive_budget_equal_readings:
  assumes "a \<noteq> b" and "maxComputationTimeMs options = Some (Fin x)" and "pow2 (- 1074) \<le> x"
      and "now_end env = now_start env"
  shows "\<not> hitTimeout (fst (computeDiff env dmp a b options))"
proof -
  have c: "(19 / 20 :: real) \<le> 8556839292003942 / 2 ^ 53 * 2" by simp
  have "pow2 (- 1075) = pow2 (- 1074) / 2" by (simp add: pow2_def)
  moreover have "pow2 (- 1074) / 2 < pow2 (- 1074) * (8556839292003942 / 2 ^ 53)"
    using pow2_pos [of "- 1074"] by simp
  moreover have "pow2 (- 1074) * (8556839292003942 / 2 ^ 53) \<le> x * (8556839292003942 / 2 ^ 53)"
    using assms(3) by simp
  ultimately have "pow2 (- 1075) < x * (8556839292003942 / 2 ^ 53)" by linarith
  then have "positive (round_double (x * (8556839292003942 / 2 ^ 53)))"
    by (rule round_double_positive)
  then have "\<not> jge (Fin 0) (jmul (Fin x) double_0_95)"
    unfolding double_0_95_value jmul.simps by (rule not_jge_zero_positive)
  then show ?thesis
    using assms(1,2,4)
    by (simp add: computeDiff_def Let_def split_def jsub_def round_double_def)
qed

text \<open>
  C8 (clamping of options), as the claim states it: some minimum \<open>m\<close> stands in for every
  negative \<open>maxComputationTimeMs\<close>. The code has no clamp. With equal clock readings a
  budget of -1000 gives \<open>hitTimeout\<close> true, where the budgets 1 and 5000 give false (as
  every positive budget does), so no positive minimum is in force; and the library
  instance is handed the budget itself divided by 1000, -1 for -1000 and -2 for -2000,
  where the budget 0 hands it 0, so no single value is in force there either.
\<close>

theorem computeDiff_no_clamp_counterexample:
  "hitTimeout (fst (computeDiff (sample_env 0 0) fresh_dmp ''a'' ''b'' (timeout_options (Fin (- 1000)))))
   \<and> \<not> hitTimeout (fst (computeDiff (sample_env 0 0) fresh_dmp ''a'' ''b'' (timeout_options (Fin 1))))
   \<and> \<not> hitTimeout (fst (computeDiff (sample_env 0 0) fresh_dmp ''a'' ''b'' (timeout_options (Fin 5000))))
   \<and> Diff_Timeout (snd (computeDiff (sample_env 0 0) fresh_dmp ''a'' ''b''
        (timeout_options (Fin (- 1000))))) = Fin (- 1)
   \<and> Diff_Timeout (snd (computeDiff (sample_env 0 0) fresh_dmp ''a'' ''b''
        (timeout_options (Fin (- 2000))))) = Fin (- 2)
   \<and> Diff_Timeout (snd (computeDiff (sample_env 0 0) fresh_dmp ''a'' ''b''
        (timeout_options (Fin 0)))) = Fin 0"
proof -
  have n: "jge (Fin 0) (jmul (Fin (- 1000)) double_0_95)"
    by (rule jge_nonneg_nonpos) (simp_all add: double_0_95_value round_double_nonpos)
  have z: "round_double 0 = Fin 0"
    by (simp add: round_double_def)
  show ?thesis
    using n
    by (simp add: computeDiff_def Let_def split_def CHAR_THRESHOLD_ACCURATE_def
        timeout_options_def sample_env_def nl_def elapsed_0 threshold_1 threshold_5000
        round_double_minus_1 round_double_minus_2 z)
qed

text \<open>
  C8 as amended. \<open>computeDiff\<close> does not clamp and does not reject: a negative
  \<open>maxComputationTimeMs\<close> is used as it is given. For distinct texts and a clock that
  does not run backwards, \<open>hitTimeout\<close> is then true and the edit sequence is the one
  \<open>diff_main\<close> returned, without semantic cleanup, in line mode and in character mode
  alike. In character mode the library instance is left with \<open>Diff_Timeout\<close> equal to the
  negative budget divided by 1000; in line mode the instance is left as it was.
\<close>

theorem computeDiff_negative_timeout:
  assumes "a \<noteq> b" and "maxComputationTimeMs options = Some t" and "jlt t (Fin 0)"
      and "now_start env \<le> now_end env"
  shows "hitTimeout (fst (computeDiff env dmp a b options))
       \<and> diffs (fst (computeDiff env dmp a b options)) =
           (if lineMode options \<noteq> Some False \<and> (nl \<in> set a \<or> nl \<in> set b)
            then diff_main env dmp a b
                   (if length (split_nl a) + length (split_nl b) < 1700 then None else Some True)
            else diff_main env (dmp\<lparr>Diff_Timeout := jdiv t (Fin 1000)\<rparr>) a b
                   (if length a + length b < 500 then None else Some True))
       \<and> snd (computeDiff env dmp a b options) =
           (if lineMode options \<noteq> Some False \<and> (nl \<in> set a \<or> nl \<in> set b)
            then dmp else dmp\<lparr>Diff_Timeout := jdiv t (Fin 1000)\<rparr>)"
proof -
  have e: "nonneg (jsub (Fin (now_end env)) (Fin (now_start env)))"
    using assms(4) by (simp add: jsub_def round_double_nonneg)
  have p: "nonpos (jmul t double_0_95)"
  proof (cases t)
    case (Fin x)
    with assms(3) have "x * (8556839292003942 / 2 ^ 53) \<le> 0"
      by (simp add: mult_le_0_iff)
    then show ?thesis
      unfolding Fin double_0_95_value jmul.simps by (rule round_double_nonpos)
  next
    case PosInf
    with assms(3) show ?thesis by simp
  next
    case NegInf
    then show ?thesis by (simp add: double_0_95_value)
  next
    case NaN
    with assms(3) show ?thesis by simp
  qed
  have "jge (jsub (Fin (now_end env)) (Fin (now_start env))) (jmul t double_0_95)"
    using e p by (rule jge_nonneg_nonpos)
  then show ?thesis
    using assms(1,2)
    by (simp add: computeDiff_def computeLineDiff_eq Let_def split_def
        CHAR_THRESHOLD_ACCURATE_def SIZE_THRESHOLD_ACCURATE_def)
qed

theorem computeDiff_negative_timeout_witness:
  "two_lines \<noteq> ''ac''
   \<and> maxComputationTimeMs (timeout_options (Fin (- 1000))) = Some (Fin (- 1000))
   \<and> jlt (Fin (- 1000)) (Fin 0) \<and> now_start (sample_env 0 1) \<le> now_end (sample_env 0 1)
   \<and> hitTimeout (fst (computeDiff (sample_env 0 1) fresh_dmp two_lines ''ac''
        (timeout_options (Fin (- 1000)))))
   \<and> diffs (fst (computeDiff (sample_env 0 1) fresh_dmp two_lines ''ac''
        (timeout_options (Fin (- 1000))))) = [(DIFF_DELETE, two_lines), (DIFF_INSERT, ''ac'')]
   \<and> snd (computeDiff (sample_env 0 1) fresh_dmp two_lines ''ac''
        (timeout_options (Fin (- 1000)))) = fresh_dmp"
proof -
  have h: "two_lines \<noteq> ''ac''"
    "maxComputationTimeMs (timeout_options (Fin (- 1000))) = Some (Fin (- 1000))"
    "jlt (Fin (- 1000)) (Fin 0)" "now_start (sample_env 0 1) \<le> now_end (sample_env 0 1)"
    by (simp_all add: timeout_options_def sample_env_def two_lines_def)
  show ?thesis
    using computeDiff_negative_timeout [OF h, of fresh_dmp] h
    by (simp add: timeout_options_def two_lines_def sample_env_def whole_text_diff_def)
qed

section \<open>optimizeDiffs\<close>

text \<open>
  C3 (cleanup keeps the reconstruction), at the edit sequence \<open>Delete(x), Equal(ab),
  Insert(y)\<close>: \<open>optimizeDiffs\<close> removes the short \<open>Equal\<close> operation between the two changes
  and puts its text nowhere, so the sequence that reconstructed \<open>xab\<close> and \<open>aby\<close>
  reconstructs \<open>x\<close> and \<open>y\<close> afterwards.
\<close>

theorem optimizeDiffs_drops_text:
  "optimizeDiffs three_ops = [(DIFF_DELETE, ''x''), (DIFF_INSERT, ''y'')]
   \<and> diff_text1 three_ops = ''xab'' \<and> diff_text1 (optimizeDiffs three_ops) = ''x''
   \<and> diff_text2 three_ops = ''aby'' \<and> diff_text2 (optimizeDiffs three_ops) = ''y''"
  by (simp add: optimizeDiffs_def three_ops_def diff_text1_def diff_text2_def)

section \<open>renderDiffToHtml\<close>


lemma regionIndex_Cons_Suc:
  "regionIndex (d # ds) (Suc i) = (if fst d \<noteq> DIFF_EQUAL then 1 else 0) + regionIndex ds i"
  by (simp add: regionIndex_def)


lemma regionIndex_length:
  "regionIndex ds (length ds) = length (filter (\<lambda>d. fst d \<noteq> DIFF_EQUAL) ds)"
  by (simp add: regionIndex_def)

text \<open>The two ways through the loop body: the \<open>break\<close>, and one more operation.\<close>

lemma render_loop_stop:
  "int c > mc \<Longrightarrow>
   render_loop mc hi (d # ds) l r c k =
     \<lparr>leftHtml = l @ truncationMsg, rightHtml = r @ truncationMsg,
      changeCount = k, truncated = True\<rparr>"
  by (cases d) simp

lemma render_loop_step:
  "\<not> int c > mc \<Longrightarrow>
   render_loop mc hi (d # ds) l r c k =
     render_loop mc hi ds (l @ left_piece hi d k) (r @ right_piece hi d k) (c + 1)
       (k + (if fst d \<noteq> DIFF_EQUAL then 1 else 0))"
  by (cases d; cases "fst d") (simp_all add: left_piece_def right_piece_def Let_def)

text \<open>
  With \<open>c\<close> operations counted so far, the loop still renders \<open>mc + 1 - c\<close> operations
  before it breaks.
\<close>

lemma processed_Suc:
  "\<not> int c > mc \<Longrightarrow> nat (mc + 1 - int c) = Suc (nat (mc + 1 - int (c + 1)))"
  by simp

lemma render_loop_truncated:
  "truncated (render_loop mc hi ds l r c k) = (nat (mc + 1 - int c) < length ds)"
proof (induction ds arbitrary: l r c k)
  case Nil
  show ?case by simp
next
  case (Cons d ds)
  show ?case
  proof (cases "int c > mc")
    case True
    then show ?thesis by (simp add: render_loop_stop)
  next
    case False
    show ?thesis
      unfolding render_loop_step [OF False] processed_Suc [OF False] Cons by simp
  qed
qed

lemma render_loop_changeCount:
  "changeCount (render_loop mc hi ds l r c k) =
     k + regionIndex (take (nat (mc + 1 - int c)) ds) (length (take (nat (mc + 1 - int c)) ds))"
proof (induction ds arbitrary: l r c k)
  case Nil
  show ?case by (simp add: regionIndex_def)
next
  case (Cons d ds)
  show ?case
  proof (cases "int c > mc")
    case True
    then show ?thesis by (simp add: render_loop_stop regionIndex_def)
  next
    case False
    show ?thesis
      unfolding render_loop_step [OF False] processed_Suc [OF False] Cons
      by (simp add: regionIndex_Cons_Suc)
  qed
qed



text \<open>
  When the render truncates: exactly when the sequence has more than \<open>maxChunks + 1\<close>
  operations (with any operation at all when \<open>maxChunks\<close> is below -1).
\<close>

lemma renderDiffToHtml_truncated_iff:
  "truncated (renderDiffToHtml ds options) =
     (nat ((case maxChunks options of None \<Rightarrow> 5000 | Some m \<Rightarrow> m) + 1) < length ds)"
  by (simp add: renderDiffToHtml_def render_loop_truncated Let_def)

lemma renderDiffToHtml_changeCount:
  "changeCount (renderDiffToHtml ds options) =
     length (filter (\<lambda>d. fst d \<noteq> DIFF_EQUAL)
       (take (nat ((case maxChunks options of None \<Rightarrow> 5000 | Some m \<Rightarrow> m) + 1)) ds))"
  unfolding renderDiffToHtml_def Let_def render_loop_changeCount regionIndex_length
  by simp

text \<open>
  A sequence of exactly \<open>maxChunks + 1\<close> operations is rendered whole: no truncation, and
  every operation that is not \<open>Equal\<close> is counted.
\<close>

lemma renderDiffToHtml_boundary:
  assumes "maxChunks options = Some m" and "int (length ds) = m + 1"
  shows "\<not> truncated (renderDiffToHtml ds options)
       \<and> changeCount (renderDiffToHtml ds options)
           = length (filter (\<lambda>d. fst d \<noteq> DIFF_EQUAL) ds)"
proof -
  have "nat (m + 1) = length ds" using assms(2) by simp
  then show ?thesis
    by (simp add: renderDiffToHtml_truncated_iff renderDiffToHtml_changeCount assms(1))
qed

text \<open>
  C2 (truncation boundary), at \<open>maxChunks = 1\<close> and the edit sequence \<open>Delete(a),
  Insert(b)\<close> of length \<open>maxChunks + 1\<close> with alternating tags: the render does not
  truncate and its change count is 2, the number of operations that are not \<open>Equal\<close> in the
  full sequence. The test \<open>chunkCount++ > maxChunks\<close> compares the count before the
  increment, so \<open>maxChunks + 1\<close> operations are rendered before the marker can appear.
\<close>

theorem render_truncation_boundary:
  "truncated (renderDiffToHtml [(DIFF_DELETE, ''a''), (DIFF_INSERT, ''b'')]
       \<lparr>maxChunks = Some 1, highlightIndex = None\<rparr>) = False
   \<and> changeCount (renderDiffToHtml [(DIFF_DELETE, ''a''), (DIFF_INSERT, ''b'')]
       \<lparr>maxChunks = Some 1, highlightIndex = None\<rparr>) = 2
   \<and> length (filter (\<lambda>d. fst d \<noteq> DIFF_EQUAL) [(DIFF_DELETE, ''a''), (DIFF_INSERT, ''b'')]) = 2"
  by (simp add: renderDiffToHtml_def Let_def)




end
